theory Spec2Isabelle
  imports Main "HOL-Library.Word"
begin

unbundle bit_operations_syntax

section \<open>clang/Basic/PointerAuthOptions.h\<close>

text \<open>
  A shallow embedding of the classes \<^verbatim>\<open>PointerAuthSchema\<close> and
  \<^verbatim>\<open>PointerAuthOptions\<close>. The enumerations are datatypes of their enumerators, the
  bit-fields of the schema are words of the declared widths, every \<^verbatim>\<open>assert\<close> and
  \<^verbatim>\<open>llvm_unreachable\<close> is a branch that returns a fault (the header as compiled with
  assertions on, that is without \<^verbatim>\<open>NDEBUG\<close>), and a constructor takes the
  storage of the object as it was before the constructor ran, because the constructors
  do not write every bit-field.
\<close>

subsection \<open>The enumerations\<close>

text \<open>\<^verbatim>\<open>enum class Kind { None, Soft, ARM8_3 }\<close>: the enumerators get 0, 1, 2.\<close>

datatype Kind = Kind_None | Kind_Soft | Kind_ARM8_3

fun unsigned_Kind :: "Kind \<Rightarrow> nat" where
  "unsigned_Kind Kind_None = 0"
| "unsigned_Kind Kind_Soft = 1"
| "unsigned_Kind Kind_ARM8_3 = 2"

text \<open>\<^verbatim>\<open>enum class SoftKey\<close>, with the values the source writes out.\<close>

datatype SoftKey =
    SoftKey_FunctionPointers
  | SoftKey_BlockInvocationFunctionPointers
  | SoftKey_BlockHelperFunctionPointers
  | SoftKey_ObjCMethodListFunctionPointers
  | SoftKey_CXXVTablePointers
  | SoftKey_CXXVirtualFunctionPointers
  | SoftKey_CXXMemberFunctionPointers

fun unsigned_SoftKey :: "SoftKey \<Rightarrow> nat" where
  "unsigned_SoftKey SoftKey_FunctionPointers = 0"
| "unsigned_SoftKey SoftKey_BlockInvocationFunctionPointers = 1"
| "unsigned_SoftKey SoftKey_BlockHelperFunctionPointers = 2"
| "unsigned_SoftKey SoftKey_ObjCMethodListFunctionPointers = 3"
| "unsigned_SoftKey SoftKey_CXXVTablePointers = 4"
| "unsigned_SoftKey SoftKey_CXXVirtualFunctionPointers = 5"
| "unsigned_SoftKey SoftKey_CXXMemberFunctionPointers = 6"

text \<open>\<^verbatim>\<open>enum class ARM8_3Key { ASIA = 0, ASIB = 1, ASDA = 2, ASDB = 3 }\<close>.\<close>

datatype ARM8_3Key = ARM8_3Key_ASIA | ARM8_3Key_ASIB | ARM8_3Key_ASDA | ARM8_3Key_ASDB

fun unsigned_ARM8_3Key :: "ARM8_3Key \<Rightarrow> nat" where
  "unsigned_ARM8_3Key ARM8_3Key_ASIA = 0"
| "unsigned_ARM8_3Key ARM8_3Key_ASIB = 1"
| "unsigned_ARM8_3Key ARM8_3Key_ASDA = 2"
| "unsigned_ARM8_3Key ARM8_3Key_ASDB = 3"

text \<open>\<^verbatim>\<open>enum class Discrimination { None, Type, Decl }\<close>: the enumerators get 0, 1, 2.\<close>

datatype Discrimination = Discrimination_None | Discrimination_Type | Discrimination_Decl

fun unsigned_Discrimination :: "Discrimination \<Rightarrow> nat" where
  "unsigned_Discrimination Discrimination_None = 0"
| "unsigned_Discrimination Discrimination_Type = 1"
| "unsigned_Discrimination Discrimination_Decl = 2"

text \<open>
  A value of a scoped enumeration is an integer of the underlying type: the cast
  \<^verbatim>\<open>Kind(x)\<close> of a bit-field to the enumeration never fails, and gives a value that
  is no enumerator when \<open>x\<close> is the number of none. \<open>Unnamed\<close> holds such a value.
\<close>

datatype 'e enum_class = Enumerator 'e | Unnamed nat

fun unsigned_of :: "('e \<Rightarrow> nat) \<Rightarrow> 'e enum_class \<Rightarrow> nat" where
  "unsigned_of u (Enumerator e) = u e"
| "unsigned_of u (Unnamed n) = n"

definition Kind_of :: "nat \<Rightarrow> Kind enum_class" where
  "Kind_of n =
     (if n = 0 then Enumerator Kind_None
      else if n = 1 then Enumerator Kind_Soft
      else if n = 2 then Enumerator Kind_ARM8_3
      else Unnamed n)"

definition SoftKey_of :: "nat \<Rightarrow> SoftKey enum_class" where
  "SoftKey_of n =
     (if n = 0 then Enumerator SoftKey_FunctionPointers
      else if n = 1 then Enumerator SoftKey_BlockInvocationFunctionPointers
      else if n = 2 then Enumerator SoftKey_BlockHelperFunctionPointers
      else if n = 3 then Enumerator SoftKey_ObjCMethodListFunctionPointers
      else if n = 4 then Enumerator SoftKey_CXXVTablePointers
      else if n = 5 then Enumerator SoftKey_CXXVirtualFunctionPointers
      else if n = 6 then Enumerator SoftKey_CXXMemberFunctionPointers
      else Unnamed n)"

definition ARM8_3Key_of :: "nat \<Rightarrow> ARM8_3Key enum_class" where
  "ARM8_3Key_of n =
     (if n = 0 then Enumerator ARM8_3Key_ASIA
      else if n = 1 then Enumerator ARM8_3Key_ASIB
      else if n = 2 then Enumerator ARM8_3Key_ASDA
      else if n = 3 then Enumerator ARM8_3Key_ASDB
      else Unnamed n)"

definition Discrimination_of :: "nat \<Rightarrow> Discrimination enum_class" where
  "Discrimination_of n =
     (if n = 0 then Enumerator Discrimination_None
      else if n = 1 then Enumerator Discrimination_Type
      else if n = 2 then Enumerator Discrimination_Decl
      else Unnamed n)"

subsection \<open>The storage of a schema\<close>

text \<open>
  The three members \<^verbatim>\<open>Common\<close>, \<^verbatim>\<open>Soft\<close> and \<^verbatim>\<open>ARM8_3\<close> of the anonymous union
  lie over each other and start with the same three bit-fields. The record is the
  widest member, \<^verbatim>\<open>Soft\<close>: \<^verbatim>\<open>Kind : 2\<close>, \<^verbatim>\<open>AddressDiscriminated : 1\<close>,
  \<^verbatim>\<open>Discrimination : 2\<close>, \<^verbatim>\<open>Key : 3\<close>. The two bits of \<^verbatim>\<open>ARM8_3.Key\<close> are the
  first two of the three bits of \<^verbatim>\<open>Soft.Key\<close>; writing them leaves the third as it was.
\<close>

record PointerAuthSchema =
  Kind :: "2 word"
  AddressDiscriminated :: "1 word"
  Discrimination :: "2 word"
  Key :: "3 word"

definition ARM8_3_Key :: "PointerAuthSchema \<Rightarrow> 2 word" where
  "ARM8_3_Key s = ucast (Key s)"

definition ARM8_3_Key_update :: "2 word \<Rightarrow> PointerAuthSchema \<Rightarrow> PointerAuthSchema" where
  "ARM8_3_Key_update w s = s\<lparr>Key := (Key s AND 4) OR ucast w\<rparr>"

datatype fault = AssertionFailed string | Unreachable string

subsection \<open>The constructors\<close>

text \<open>
  \<open>mem\<close> is the storage of the object before the constructor runs. The default
  constructor writes \<^verbatim>\<open>Common.Kind\<close> and nothing else.
\<close>

definition PointerAuthSchema_default :: "PointerAuthSchema \<Rightarrow> PointerAuthSchema" where
  "PointerAuthSchema_default mem = mem\<lparr>Kind := of_nat (unsigned_Kind Kind_None)\<rparr>"

definition PointerAuthSchema_Soft ::
  "PointerAuthSchema \<Rightarrow> SoftKey \<Rightarrow> bool \<Rightarrow> Discrimination \<Rightarrow> PointerAuthSchema" where
  "PointerAuthSchema_Soft mem key isAddressDiscriminated otherDiscrimination =
     mem\<lparr>Kind := of_nat (unsigned_Kind Kind_Soft),
         AddressDiscriminated := of_bool isAddressDiscriminated,
         Discrimination := of_nat (unsigned_Discrimination otherDiscrimination),
         Key := of_nat (unsigned_SoftKey key)\<rparr>"

definition PointerAuthSchema_ARM8_3 ::
  "PointerAuthSchema \<Rightarrow> ARM8_3Key \<Rightarrow> bool \<Rightarrow> Discrimination \<Rightarrow> PointerAuthSchema" where
  "PointerAuthSchema_ARM8_3 mem key isAddressDiscriminated otherDiscrimination =
     ARM8_3_Key_update (of_nat (unsigned_ARM8_3Key key))
       (mem\<lparr>Kind := of_nat (unsigned_Kind Kind_ARM8_3),
            AddressDiscriminated := of_bool isAddressDiscriminated,
            Discrimination := of_nat (unsigned_Discrimination otherDiscrimination)\<rparr>)"

subsection \<open>The accessors\<close>

definition getKind :: "PointerAuthSchema \<Rightarrow> Kind enum_class" where
  "getKind s = Kind_of (unat (Kind s))"

definition isEnabled :: "PointerAuthSchema \<Rightarrow> bool" where
  "isEnabled s = (getKind s \<noteq> Enumerator Kind_None)"

definition operator_bool :: "PointerAuthSchema \<Rightarrow> bool" where
  "operator_bool s = isEnabled s"

definition isAddressDiscriminated :: "PointerAuthSchema \<Rightarrow> fault + bool" where
  "isAddressDiscriminated s =
     (if getKind s \<noteq> Enumerator Kind_None then Inr (AddressDiscriminated s \<noteq> 0)
      else Inl (AssertionFailed ''getKind() != Kind::None''))"

definition getOtherDiscrimination :: "PointerAuthSchema \<Rightarrow> fault + Discrimination enum_class" where
  "getOtherDiscrimination s =
     (if getKind s \<noteq> Enumerator Kind_None then Inr (Discrimination_of (unat (Discrimination s)))
      else Inl (AssertionFailed ''getKind() != Kind::None''))"

definition hasOtherDiscrimination :: "PointerAuthSchema \<Rightarrow> fault + bool" where
  "hasOtherDiscrimination s =
     (case getOtherDiscrimination s of
        Inl f \<Rightarrow> Inl f
      | Inr d \<Rightarrow> Inr (d \<noteq> Enumerator Discrimination_None))"

definition getSoftKey :: "PointerAuthSchema \<Rightarrow> fault + SoftKey enum_class" where
  "getSoftKey s =
     (if getKind s = Enumerator Kind_Soft then Inr (SoftKey_of (unat (Key s)))
      else Inl (AssertionFailed ''getKind() == Kind::Soft''))"

definition getARM8_3Key :: "PointerAuthSchema \<Rightarrow> fault + ARM8_3Key enum_class" where
  "getARM8_3Key s =
     (if getKind s = Enumerator Kind_ARM8_3 then Inr (ARM8_3Key_of (unat (ARM8_3_Key s)))
      else Inl (AssertionFailed ''getKind() == Kind::ARM8_3''))"

text \<open>
  The \<^verbatim>\<open>switch\<close> of \<^verbatim>\<open>getKey\<close> has a case for each enumerator; a kind that is no
  enumerator leaves the \<^verbatim>\<open>switch\<close> and reaches the last statement.
\<close>

definition getKey :: "PointerAuthSchema \<Rightarrow> fault + nat" where
  "getKey s =
     (case getKind s of
        Enumerator Kind_None \<Rightarrow> Inl (Unreachable ''calling getKey() on disabled schema'')
      | Enumerator Kind_Soft \<Rightarrow>
          (case getSoftKey s of Inl f \<Rightarrow> Inl f | Inr k \<Rightarrow> Inr (unsigned_of unsigned_SoftKey k))
      | Enumerator Kind_ARM8_3 \<Rightarrow>
          (case getARM8_3Key s of Inl f \<Rightarrow> Inl f | Inr k \<Rightarrow> Inr (unsigned_of unsigned_ARM8_3Key k))
      | Unnamed n \<Rightarrow> Inl (Unreachable ''bad key kind''))"

subsection \<open>The options\<close>

record PointerAuthOptions =
  ThunkCXXVirtualMemberPointers :: bool
  ReturnAddresses :: bool
  IndirectGotos :: bool
  AuthTraps :: bool
  FunctionPointers :: PointerAuthSchema
  BlockInvocationFunctionPointers :: PointerAuthSchema
  BlockHelperFunctionPointers :: PointerAuthSchema
  BlockByrefHelperFunctionPointers :: PointerAuthSchema
  ObjCMethodListFunctionPointers :: PointerAuthSchema
  CXXVTablePointers :: PointerAuthSchema
  CXXVTTVTablePointers :: PointerAuthSchema
  CXXVirtualFunctionPointers :: PointerAuthSchema
  CXXVirtualVariadicFunctionPointers :: PointerAuthSchema
  CXXMemberFunctionPointers :: PointerAuthSchema

text \<open>
  The implicit default constructor: the four default member initialisers, and the
  default constructor of \<^verbatim>\<open>PointerAuthSchema\<close> on the storage of each of the ten
  members.
\<close>

definition PointerAuthOptions_default :: "PointerAuthOptions \<Rightarrow> PointerAuthOptions" where
  "PointerAuthOptions_default mem =
     \<lparr>ThunkCXXVirtualMemberPointers = False,
      ReturnAddresses = False,
      IndirectGotos = False,
      AuthTraps = False,
      FunctionPointers = PointerAuthSchema_default (FunctionPointers mem),
      BlockInvocationFunctionPointers = PointerAuthSchema_default (BlockInvocationFunctionPointers mem),
      BlockHelperFunctionPointers = PointerAuthSchema_default (BlockHelperFunctionPointers mem),
      BlockByrefHelperFunctionPointers = PointerAuthSchema_default (BlockByrefHelperFunctionPointers mem),
      ObjCMethodListFunctionPointers = PointerAuthSchema_default (ObjCMethodListFunctionPointers mem),
      CXXVTablePointers = PointerAuthSchema_default (CXXVTablePointers mem),
      CXXVTTVTablePointers = PointerAuthSchema_default (CXXVTTVTablePointers mem),
      CXXVirtualFunctionPointers = PointerAuthSchema_default (CXXVirtualFunctionPointers mem),
      CXXVirtualVariadicFunctionPointers = PointerAuthSchema_default (CXXVirtualVariadicFunctionPointers mem),
      CXXMemberFunctionPointers = PointerAuthSchema_default (CXXMemberFunctionPointers mem)\<rparr>"

subsection \<open>What a client can see of a schema\<close>

text \<open>
  The class declares no comparison operator and its bit-fields are private: a client
  tells two schemas apart only by the results of the public member functions, faults
  included. \<open>observe\<close> collects the results of all of them.
\<close>

definition observe ::
  "PointerAuthSchema \<Rightarrow>
     Kind enum_class \<times> bool \<times> bool \<times> (fault + bool) \<times> (fault + bool)
     \<times> (fault + Discrimination enum_class) \<times> (fault + nat)
     \<times> (fault + SoftKey enum_class) \<times> (fault + ARM8_3Key enum_class)" where
  "observe s =
     (getKind s, operator_bool s, isEnabled s, isAddressDiscriminated s,
      hasOtherDiscrimination s, getOtherDiscrimination s, getKey s, getSoftKey s,
      getARM8_3Key s)"

section \<open>Facts about the bit-fields and the constructors\<close>

lemma not_bit_4_below_2: "n < 2 \<Longrightarrow> \<not> bit (4 :: int) n"
  using less_2_cases [of n] by (auto simp: bit_0 numeral_2_eq_2 bit_Suc)

lemma ARM8_3_Key_update_get: "ARM8_3_Key (ARM8_3_Key_update w s) = w"
proof -
  have "(ucast ((k AND 4) OR ucast w) :: 2 word) = w" for k :: "3 word"
    by (rule bit_word_eqI) (auto simp: bit_simps dest: not_bit_4_below_2)
  then show ?thesis
    by (simp add: ARM8_3_Key_def ARM8_3_Key_update_def)
qed

lemma ARM8_3_Key_update_fields:
  "Kind (ARM8_3_Key_update w s) = Kind s"
  "AddressDiscriminated (ARM8_3_Key_update w s) = AddressDiscriminated s"
  "Discrimination (ARM8_3_Key_update w s) = Discrimination s"
  by (simp_all add: ARM8_3_Key_update_def)

lemma of_bool_bit_field: "((of_bool a :: 1 word) \<noteq> 0) = a"
  by (cases a) simp_all

lemma Discrimination_of_unsigned:
  "Discrimination_of (unat (of_nat (unsigned_Discrimination d) :: 2 word)) = Enumerator d"
  by (cases d) (simp_all add: Discrimination_of_def)

lemma SoftKey_of_unsigned: "SoftKey_of (unat (of_nat (unsigned_SoftKey k) :: 3 word)) = Enumerator k"
  by (cases k) (simp_all add: SoftKey_of_def)

lemma ARM8_3Key_of_unsigned:
  "ARM8_3Key_of (unat (of_nat (unsigned_ARM8_3Key k) :: 2 word)) = Enumerator k"
  by (cases k) (simp_all add: ARM8_3Key_of_def)

lemma getKind_default: "getKind (PointerAuthSchema_default mem) = Enumerator Kind_None"
  unfolding getKind_def PointerAuthSchema_default_def by (simp add: Kind_of_def)

lemma getKind_Soft: "getKind (PointerAuthSchema_Soft mem k a d) = Enumerator Kind_Soft"
  unfolding getKind_def PointerAuthSchema_Soft_def by (simp add: Kind_of_def)

lemma getKind_ARM8_3: "getKind (PointerAuthSchema_ARM8_3 mem k a d) = Enumerator Kind_ARM8_3"
  unfolding getKind_def PointerAuthSchema_ARM8_3_def
  by (simp add: ARM8_3_Key_update_fields Kind_of_def)

lemma isAddressDiscriminated_Soft:
  "isAddressDiscriminated (PointerAuthSchema_Soft mem k a d) = Inr a"
  unfolding isAddressDiscriminated_def
  by (simp add: getKind_Soft) (simp add: PointerAuthSchema_Soft_def of_bool_bit_field)

lemma isAddressDiscriminated_ARM8_3:
  "isAddressDiscriminated (PointerAuthSchema_ARM8_3 mem k a d) = Inr a"
  unfolding isAddressDiscriminated_def
  by (simp add: getKind_ARM8_3)
     (simp add: PointerAuthSchema_ARM8_3_def ARM8_3_Key_update_fields of_bool_bit_field)

lemma getOtherDiscrimination_Soft:
  "getOtherDiscrimination (PointerAuthSchema_Soft mem k a d) = Inr (Enumerator d)"
  unfolding getOtherDiscrimination_def
  by (simp add: getKind_Soft) (simp add: PointerAuthSchema_Soft_def Discrimination_of_unsigned)

lemma getOtherDiscrimination_ARM8_3:
  "getOtherDiscrimination (PointerAuthSchema_ARM8_3 mem k a d) = Inr (Enumerator d)"
  unfolding getOtherDiscrimination_def
  by (simp add: getKind_ARM8_3)
     (simp add: PointerAuthSchema_ARM8_3_def ARM8_3_Key_update_fields Discrimination_of_unsigned)

lemma getSoftKey_Soft: "getSoftKey (PointerAuthSchema_Soft mem k a d) = Inr (Enumerator k)"
  unfolding getSoftKey_def
  by (simp add: getKind_Soft) (simp add: PointerAuthSchema_Soft_def SoftKey_of_unsigned)

lemma getARM8_3Key_ARM8_3:
  "getARM8_3Key (PointerAuthSchema_ARM8_3 mem k a d) = Inr (Enumerator k)"
  unfolding getARM8_3Key_def
  by (simp add: getKind_ARM8_3)
     (simp add: PointerAuthSchema_ARM8_3_def ARM8_3_Key_update_get ARM8_3Key_of_unsigned)

subsection \<open>Telling schemas apart\<close>

lemma Discrimination_of_inj: "Discrimination_of n = Discrimination_of m \<Longrightarrow> n = m"
  by (auto simp: Discrimination_of_def split: if_splits)

lemma SoftKey_of_inj: "SoftKey_of n = SoftKey_of m \<Longrightarrow> n = m"
  by (auto simp: SoftKey_of_def split: if_splits)

lemma ARM8_3Key_of_inj: "ARM8_3Key_of n = ARM8_3Key_of m \<Longrightarrow> n = m"
  by (auto simp: ARM8_3Key_of_def split: if_splits)

lemma one_bit_field: "((x :: 1 word) \<noteq> 0) = (y \<noteq> 0) \<Longrightarrow> x = y"
proof -
  assume h: "(x \<noteq> 0) = (y \<noteq> 0)"
  have "unat x < 2" "unat y < 2"
    using unsigned_less [of x, where 'a = nat] unsigned_less [of y, where 'a = nat] by simp_all
  moreover have "(unat x = 0) = (unat y = 0)"
    using h by (simp add: unat_eq_0)
  ultimately have "unat x = unat y"
    by arith
  then show "x = y"
    by (simp add: word_unat_eq_iff)
qed

lemma observe_iff_fields:
  "observe s = observe t \<longleftrightarrow>
     getKind s = getKind t
     \<and> (getKind s \<noteq> Enumerator Kind_None \<longrightarrow>
          AddressDiscriminated s = AddressDiscriminated t \<and> Discrimination s = Discrimination t)
     \<and> (getKind s = Enumerator Kind_Soft \<longrightarrow> Key s = Key t)
     \<and> (getKind s = Enumerator Kind_ARM8_3 \<longrightarrow> ARM8_3_Key s = ARM8_3_Key t)"
  (is "?L \<longleftrightarrow> ?R")
proof
  assume ?L
  then have k: "getKind s = getKind t"
    and a: "isAddressDiscriminated s = isAddressDiscriminated t"
    and d: "getOtherDiscrimination s = getOtherDiscrimination t"
    and sk: "getSoftKey s = getSoftKey t"
    and hk: "getARM8_3Key s = getARM8_3Key t"
    by (simp_all add: observe_def)
  have "AddressDiscriminated s = AddressDiscriminated t" if "getKind s \<noteq> Enumerator Kind_None"
    using a k that by (simp add: isAddressDiscriminated_def one_bit_field)
  moreover have "Discrimination s = Discrimination t" if "getKind s \<noteq> Enumerator Kind_None"
    using d k that
    by (auto simp: getOtherDiscrimination_def word_unat_eq_iff dest: Discrimination_of_inj)
  moreover have "Key s = Key t" if "getKind s = Enumerator Kind_Soft"
    using sk k that by (auto simp: getSoftKey_def word_unat_eq_iff dest: SoftKey_of_inj)
  moreover have "ARM8_3_Key s = ARM8_3_Key t" if "getKind s = Enumerator Kind_ARM8_3"
    using hk k that by (auto simp: getARM8_3Key_def word_unat_eq_iff dest: ARM8_3Key_of_inj)
  ultimately show ?R
    using k by simp
next
  assume r: ?R
  then have k: "getKind t = getKind s"
    by simp
  show ?L
  proof (cases "getKind s")
    case (Enumerator e)
    with r k show ?thesis
      by (cases e)
        (simp_all add: observe_def operator_bool_def isEnabled_def isAddressDiscriminated_def
          hasOtherDiscrimination_def getOtherDiscrimination_def getKey_def getSoftKey_def
          getARM8_3Key_def)
  next
    case (Unnamed n)
    with r k show ?thesis
      by (simp add: observe_def operator_bool_def isEnabled_def isAddressDiscriminated_def
          hasOtherDiscrimination_def getOtherDiscrimination_def getKey_def getSoftKey_def
          getARM8_3Key_def)
  qed
qed

lemma observe_default:
  "observe (PointerAuthSchema_default mem) =
     (Enumerator Kind_None, False, False,
      Inl (AssertionFailed ''getKind() != Kind::None''),
      Inl (AssertionFailed ''getKind() != Kind::None''),
      Inl (AssertionFailed ''getKind() != Kind::None''),
      Inl (Unreachable ''calling getKey() on disabled schema''),
      Inl (AssertionFailed ''getKind() == Kind::Soft''),
      Inl (AssertionFailed ''getKind() == Kind::ARM8_3''))"
  by (simp add: observe_def operator_bool_def isEnabled_def isAddressDiscriminated_def
      hasOtherDiscrimination_def getOtherDiscrimination_def getKey_def getSoftKey_def
      getARM8_3Key_def getKind_default)

lemma observe_Soft:
  "observe (PointerAuthSchema_Soft mem k a d) =
     (Enumerator Kind_Soft, True, True, Inr a, Inr (d \<noteq> Discrimination_None),
      Inr (Enumerator d), Inr (unsigned_SoftKey k), Inr (Enumerator k),
      Inl (AssertionFailed ''getKind() == Kind::ARM8_3''))"
  by (simp add: observe_def operator_bool_def isEnabled_def hasOtherDiscrimination_def getKey_def
      getKind_Soft isAddressDiscriminated_Soft getOtherDiscrimination_Soft getSoftKey_Soft)
    (simp add: getARM8_3Key_def getKind_Soft)

lemma observe_ARM8_3:
  "observe (PointerAuthSchema_ARM8_3 mem k a d) =
     (Enumerator Kind_ARM8_3, True, True, Inr a, Inr (d \<noteq> Discrimination_None),
      Inr (Enumerator d), Inr (unsigned_ARM8_3Key k),
      Inl (AssertionFailed ''getKind() == Kind::Soft''), Inr (Enumerator k))"
  by (simp add: observe_def operator_bool_def isEnabled_def hasOtherDiscrimination_def getKey_def
      getKind_ARM8_3 isAddressDiscriminated_ARM8_3 getOtherDiscrimination_ARM8_3
      getARM8_3Key_ARM8_3)
    (simp add: getSoftKey_def getKind_ARM8_3)

subsection \<open>The last statement of \<^verbatim>\<open>getKey\<close> can be reached\<close>

lemma getKey_bad_key_kind:
  "getKey \<lparr>Kind = 3, AddressDiscriminated = a, Discrimination = d, Key = k\<rparr>
     = Inl (Unreachable ''bad key kind'')"
  by (simp add: getKey_def getKind_def Kind_of_def)

section \<open>The claims\<close>

text \<open>
  C1. Round trip. For every key \<open>k\<close> of \<^verbatim>\<open>SoftKey\<close>, every boolean \<open>a\<close> and
  every \<^verbatim>\<open>Discrimination\<close> \<open>d\<close>, the schema that the \<^verbatim>\<open>SoftKey\<close> constructor
  builds (in any storage) gives \<open>k\<close> from \<^verbatim>\<open>getSoftKey\<close>, \<open>a\<close> from
  \<^verbatim>\<open>isAddressDiscriminated\<close>, \<open>d\<close> from \<^verbatim>\<open>getOtherDiscrimination\<close>, the kind
  \<^verbatim>\<open>Soft\<close> and \<^verbatim>\<open>isEnabled\<close>; the same for the \<^verbatim>\<open>ARM8_3Key\<close> constructor with
  \<^verbatim>\<open>getARM8_3Key\<close> and the kind \<^verbatim>\<open>ARM8_3\<close>. None of the accessors faults there.
\<close>

theorem constructors_round_trip:
  "getSoftKey (PointerAuthSchema_Soft mem k a d) = Inr (Enumerator k)
   \<and> isAddressDiscriminated (PointerAuthSchema_Soft mem k a d) = Inr a
   \<and> getOtherDiscrimination (PointerAuthSchema_Soft mem k a d) = Inr (Enumerator d)
   \<and> getKind (PointerAuthSchema_Soft mem k a d) = Enumerator Kind_Soft
   \<and> isEnabled (PointerAuthSchema_Soft mem k a d) = True
   \<and> getARM8_3Key (PointerAuthSchema_ARM8_3 mem h a d) = Inr (Enumerator h)
   \<and> isAddressDiscriminated (PointerAuthSchema_ARM8_3 mem h a d) = Inr a
   \<and> getOtherDiscrimination (PointerAuthSchema_ARM8_3 mem h a d) = Inr (Enumerator d)
   \<and> getKind (PointerAuthSchema_ARM8_3 mem h a d) = Enumerator Kind_ARM8_3
   \<and> isEnabled (PointerAuthSchema_ARM8_3 mem h a d) = True"
  by (simp add: getSoftKey_Soft isAddressDiscriminated_Soft getOtherDiscrimination_Soft
      getKind_Soft getARM8_3Key_ARM8_3 isAddressDiscriminated_ARM8_3
      getOtherDiscrimination_ARM8_3 getKind_ARM8_3 isEnabled_def)

text \<open>
  C2. Queries on a disabled schema. On every schema whose kind is \<^verbatim>\<open>None\<close>, each of
  \<^verbatim>\<open>isAddressDiscriminated\<close>, \<^verbatim>\<open>getOtherDiscrimination\<close>, \<^verbatim>\<open>getSoftKey\<close>,
  \<^verbatim>\<open>getARM8_3Key\<close> and \<^verbatim>\<open>getKey\<close> faults instead of returning a value: the first four
  on their assertion, the last on the \<^verbatim>\<open>llvm_unreachable\<close> of its \<^verbatim>\<open>None\<close> case.
\<close>

theorem disabled_queries_fault:
  assumes "getKind s = Enumerator Kind_None"
  shows "isAddressDiscriminated s = Inl (AssertionFailed ''getKind() != Kind::None'')
    \<and> getOtherDiscrimination s = Inl (AssertionFailed ''getKind() != Kind::None'')
    \<and> getSoftKey s = Inl (AssertionFailed ''getKind() == Kind::Soft'')
    \<and> getARM8_3Key s = Inl (AssertionFailed ''getKind() == Kind::ARM8_3'')
    \<and> getKey s = Inl (Unreachable ''calling getKey() on disabled schema'')"
  using assms
  by (simp add: isAddressDiscriminated_def getOtherDiscrimination_def getSoftKey_def
      getARM8_3Key_def getKey_def)

theorem disabled_queries_fault_witness:
  "getKind (PointerAuthSchema_default \<lparr>Kind = 3, AddressDiscriminated = 1, Discrimination = 3, Key = 7\<rparr>)
     = Enumerator Kind_None
   \<and> isAddressDiscriminated
        (PointerAuthSchema_default \<lparr>Kind = 3, AddressDiscriminated = 1, Discrimination = 3, Key = 7\<rparr>)
     = Inl (AssertionFailed ''getKind() != Kind::None'')
   \<and> getOtherDiscrimination
        (PointerAuthSchema_default \<lparr>Kind = 3, AddressDiscriminated = 1, Discrimination = 3, Key = 7\<rparr>)
     = Inl (AssertionFailed ''getKind() != Kind::None'')
   \<and> getSoftKey
        (PointerAuthSchema_default \<lparr>Kind = 3, AddressDiscriminated = 1, Discrimination = 3, Key = 7\<rparr>)
     = Inl (AssertionFailed ''getKind() == Kind::Soft'')
   \<and> getARM8_3Key
        (PointerAuthSchema_default \<lparr>Kind = 3, AddressDiscriminated = 1, Discrimination = 3, Key = 7\<rparr>)
     = Inl (AssertionFailed ''getKind() == Kind::ARM8_3'')
   \<and> getKey
        (PointerAuthSchema_default \<lparr>Kind = 3, AddressDiscriminated = 1, Discrimination = 3, Key = 7\<rparr>)
     = Inl (Unreachable ''calling getKey() on disabled schema'')"
proof -
  let ?s = "PointerAuthSchema_default \<lparr>Kind = 3, AddressDiscriminated = 1, Discrimination = 3, Key = 7\<rparr>"
  have h: "getKind ?s = Enumerator Kind_None"
    by (simp add: getKind_def PointerAuthSchema_default_def Kind_of_def)
  from h disabled_queries_fault [OF h] show ?thesis by (rule conjI)
qed

text \<open>
  C3. Equality of schemas. The class has no \<^verbatim>\<open>operator==\<close>, so two schemas are taken
  to be equal when no public member function tells them apart (\<open>observe\<close>). That holds
  exactly when the kinds agree and, for a kind other than \<^verbatim>\<open>None\<close>, the stored
  \<^verbatim>\<open>AddressDiscriminated\<close> and \<^verbatim>\<open>Discrimination\<close> agree, and the stored key of the
  kind's own width agrees for \<^verbatim>\<open>Soft\<close> and \<^verbatim>\<open>ARM8_3\<close>. So two default-constructed
  schemas are equal whatever their storage held; two schemas built by the same
  constructor are equal exactly when key, address discrimination and discrimination
  agree, whatever their storage held; and schemas of different kinds are never equal.
\<close>

theorem schema_equality:
  "(observe s = observe t \<longleftrightarrow>
      getKind s = getKind t
      \<and> (getKind s \<noteq> Enumerator Kind_None \<longrightarrow>
           AddressDiscriminated s = AddressDiscriminated t \<and> Discrimination s = Discrimination t)
      \<and> (getKind s = Enumerator Kind_Soft \<longrightarrow> Key s = Key t)
      \<and> (getKind s = Enumerator Kind_ARM8_3 \<longrightarrow> ARM8_3_Key s = ARM8_3_Key t))
   \<and> observe (PointerAuthSchema_default m1) = observe (PointerAuthSchema_default m2)
   \<and> (observe (PointerAuthSchema_Soft m1 k1 a1 d1) = observe (PointerAuthSchema_Soft m2 k2 a2 d2)
        \<longleftrightarrow> k1 = k2 \<and> a1 = a2 \<and> d1 = d2)
   \<and> (observe (PointerAuthSchema_ARM8_3 m1 h1 a1 d1) = observe (PointerAuthSchema_ARM8_3 m2 h2 a2 d2)
        \<longleftrightarrow> h1 = h2 \<and> a1 = a2 \<and> d1 = d2)
   \<and> observe (PointerAuthSchema_Soft m1 k1 a1 d1) \<noteq> observe (PointerAuthSchema_ARM8_3 m2 h2 a2 d2)
   \<and> observe (PointerAuthSchema_default m1) \<noteq> observe (PointerAuthSchema_Soft m2 k2 a2 d2)
   \<and> observe (PointerAuthSchema_default m1) \<noteq> observe (PointerAuthSchema_ARM8_3 m2 h2 a2 d2)"
  using observe_iff_fields [of s t]
  by (auto simp: observe_default observe_Soft observe_ARM8_3)

theorem schema_equality_witness:
  "observe (PointerAuthSchema_default \<lparr>Kind = 3, AddressDiscriminated = 1, Discrimination = 3, Key = 7\<rparr>)
     = observe \<lparr>Kind = 0, AddressDiscriminated = 0, Discrimination = 0, Key = 0\<rparr>
   \<and> observe (PointerAuthSchema_ARM8_3 \<lparr>Kind = 3, AddressDiscriminated = 1, Discrimination = 3, Key = 7\<rparr>
        ARM8_3Key_ASDA True Discrimination_Decl)
     = observe \<lparr>Kind = 2, AddressDiscriminated = 1, Discrimination = 2, Key = 2\<rparr>
   \<and> observe (PointerAuthSchema_Soft \<lparr>Kind = 3, AddressDiscriminated = 1, Discrimination = 3, Key = 7\<rparr>
        SoftKey_CXXVTablePointers True Discrimination_Type)
     \<noteq> observe \<lparr>Kind = 1, AddressDiscriminated = 1, Discrimination = 1, Key = 5\<rparr>"
proof -
  let ?m = "\<lparr>Kind = 3, AddressDiscriminated = 1, Discrimination = 3, Key = 7\<rparr>"
  let ?n = "PointerAuthSchema_default ?m"
  let ?h = "PointerAuthSchema_ARM8_3 ?m ARM8_3Key_ASDA True Discrimination_Decl"
  let ?s = "PointerAuthSchema_Soft ?m SoftKey_CXXVTablePointers True Discrimination_Type"
  have n: "observe ?n = observe \<lparr>Kind = 0, AddressDiscriminated = 0, Discrimination = 0, Key = 0\<rparr>"
    using schema_equality [of ?n "\<lparr>Kind = 0, AddressDiscriminated = 0, Discrimination = 0, Key = 0\<rparr>"]
    by (simp add: getKind_def Kind_of_def PointerAuthSchema_default_def)
  have h: "observe ?h = observe \<lparr>Kind = 2, AddressDiscriminated = 1, Discrimination = 2, Key = 2\<rparr>"
    using schema_equality [of ?h "\<lparr>Kind = 2, AddressDiscriminated = 1, Discrimination = 2, Key = 2\<rparr>"]
    by (simp add: getKind_def Kind_of_def PointerAuthSchema_ARM8_3_def ARM8_3_Key_update_get
        ARM8_3_Key_update_fields)
      (simp add: ARM8_3_Key_def)
  have s: "observe ?s \<noteq> observe \<lparr>Kind = 1, AddressDiscriminated = 1, Discrimination = 1, Key = 5\<rparr>"
    using schema_equality [of ?s "\<lparr>Kind = 1, AddressDiscriminated = 1, Discrimination = 1, Key = 5\<rparr>"]
    by (simp add: getKind_def Kind_of_def PointerAuthSchema_Soft_def)
  from n h s show ?thesis by simp
qed

text \<open>
  C4. Disabled by default. A default-constructed schema is not enabled, whatever its
  storage held before; a default-constructed \<^verbatim>\<open>PointerAuthOptions\<close> has the kind
  \<^verbatim>\<open>None\<close> in each of its ten schemas and \<^verbatim>\<open>false\<close> in each of its four flags.
\<close>

theorem default_disabled:
  "isEnabled (PointerAuthSchema_default mem) = False
   \<and> getKind (FunctionPointers (PointerAuthOptions_default omem)) = Enumerator Kind_None
   \<and> getKind (BlockInvocationFunctionPointers (PointerAuthOptions_default omem)) = Enumerator Kind_None
   \<and> getKind (BlockHelperFunctionPointers (PointerAuthOptions_default omem)) = Enumerator Kind_None
   \<and> getKind (BlockByrefHelperFunctionPointers (PointerAuthOptions_default omem)) = Enumerator Kind_None
   \<and> getKind (ObjCMethodListFunctionPointers (PointerAuthOptions_default omem)) = Enumerator Kind_None
   \<and> getKind (CXXVTablePointers (PointerAuthOptions_default omem)) = Enumerator Kind_None
   \<and> getKind (CXXVTTVTablePointers (PointerAuthOptions_default omem)) = Enumerator Kind_None
   \<and> getKind (CXXVirtualFunctionPointers (PointerAuthOptions_default omem)) = Enumerator Kind_None
   \<and> getKind (CXXVirtualVariadicFunctionPointers (PointerAuthOptions_default omem)) = Enumerator Kind_None
   \<and> getKind (CXXMemberFunctionPointers (PointerAuthOptions_default omem)) = Enumerator Kind_None
   \<and> ThunkCXXVirtualMemberPointers (PointerAuthOptions_default omem) = False
   \<and> ReturnAddresses (PointerAuthOptions_default omem) = False
   \<and> IndirectGotos (PointerAuthOptions_default omem) = False
   \<and> AuthTraps (PointerAuthOptions_default omem) = False"
  by (simp add: isEnabled_def getKind_default PointerAuthOptions_default_def)

text \<open>
  C5. One key vocabulary per kind. On a schema of kind \<^verbatim>\<open>Soft\<close>, \<^verbatim>\<open>getARM8_3Key\<close>
  faults; on a schema of kind \<^verbatim>\<open>ARM8_3\<close>, \<^verbatim>\<open>getSoftKey\<close> faults; and on any schema
  \<open>t\<close> each of the two accessors returns a key exactly when the kind is its own.
\<close>

theorem vocabulary_exclusive:
  assumes "getKind s = Enumerator Kind_Soft" and "getKind h = Enumerator Kind_ARM8_3"
  shows "getARM8_3Key s = Inl (AssertionFailed ''getKind() == Kind::ARM8_3'')
    \<and> getSoftKey h = Inl (AssertionFailed ''getKind() == Kind::Soft'')
    \<and> (\<exists>k. getSoftKey s = Inr k)
    \<and> (\<exists>k. getARM8_3Key h = Inr k)
    \<and> ((\<exists>k. getSoftKey t = Inr k) = (getKind t = Enumerator Kind_Soft))
    \<and> ((\<exists>k. getARM8_3Key t = Inr k) = (getKind t = Enumerator Kind_ARM8_3))"
  using assms by (simp add: getSoftKey_def getARM8_3Key_def)

theorem vocabulary_exclusive_witness:
  "getKind (PointerAuthSchema_Soft \<lparr>Kind = 0, AddressDiscriminated = 0, Discrimination = 0, Key = 0\<rparr>
       SoftKey_CXXVTablePointers True Discrimination_Type) = Enumerator Kind_Soft
   \<and> getKind (PointerAuthSchema_ARM8_3 \<lparr>Kind = 0, AddressDiscriminated = 0, Discrimination = 0, Key = 0\<rparr>
       ARM8_3Key_ASDA False Discrimination_Decl) = Enumerator Kind_ARM8_3
   \<and> getARM8_3Key (PointerAuthSchema_Soft \<lparr>Kind = 0, AddressDiscriminated = 0, Discrimination = 0, Key = 0\<rparr>
       SoftKey_CXXVTablePointers True Discrimination_Type)
       = Inl (AssertionFailed ''getKind() == Kind::ARM8_3'')
   \<and> getSoftKey (PointerAuthSchema_ARM8_3 \<lparr>Kind = 0, AddressDiscriminated = 0, Discrimination = 0, Key = 0\<rparr>
       ARM8_3Key_ASDA False Discrimination_Decl)
       = Inl (AssertionFailed ''getKind() == Kind::Soft'')"
proof -
  let ?m = "\<lparr>Kind = 0, AddressDiscriminated = 0, Discrimination = 0, Key = 0\<rparr>"
  let ?s = "PointerAuthSchema_Soft ?m SoftKey_CXXVTablePointers True Discrimination_Type"
  let ?h = "PointerAuthSchema_ARM8_3 ?m ARM8_3Key_ASDA False Discrimination_Decl"
  have s: "getKind ?s = Enumerator Kind_Soft"
    by (simp add: getKind_def PointerAuthSchema_Soft_def Kind_of_def)
  have h: "getKind ?h = Enumerator Kind_ARM8_3"
    by (simp add: getKind_def PointerAuthSchema_ARM8_3_def ARM8_3_Key_update_def Kind_of_def)
  from s h vocabulary_exclusive [OF s h] show ?thesis by simp
qed

text \<open>
  C6. The number of the key. On a schema of kind \<^verbatim>\<open>Soft\<close>, \<^verbatim>\<open>getKey\<close> returns the
  value of \<^verbatim>\<open>getSoftKey\<close> as a number; on a schema of kind \<^verbatim>\<open>ARM8_3\<close>, the value of
  \<^verbatim>\<open>getARM8_3Key\<close> as a number. These are the two kinds of the enabled schemas that
  the constructors build, and on such a schema the result is the number of the
  enumerator the constructor was given. The schema built from \<^verbatim>\<open>ASIA\<close>, \<^verbatim>\<open>false\<close>
  and \<^verbatim>\<open>Discrimination::None\<close> has no other discrimination and the key 0.
\<close>

theorem getKey_numeric_identity:
  assumes "getKind s = Enumerator Kind_Soft" and "getKind h = Enumerator Kind_ARM8_3"
  shows "(\<exists>k. getSoftKey s = Inr k \<and> getKey s = Inr (unsigned_of unsigned_SoftKey k))
    \<and> (\<exists>k. getARM8_3Key h = Inr k \<and> getKey h = Inr (unsigned_of unsigned_ARM8_3Key k))
    \<and> getKey (PointerAuthSchema_Soft mem sk a d) = Inr (unsigned_SoftKey sk)
    \<and> getKey (PointerAuthSchema_ARM8_3 mem hk a d) = Inr (unsigned_ARM8_3Key hk)
    \<and> hasOtherDiscrimination (PointerAuthSchema_ARM8_3 mem ARM8_3Key_ASIA False Discrimination_None)
        = Inr False
    \<and> getKey (PointerAuthSchema_ARM8_3 mem ARM8_3Key_ASIA False Discrimination_None) = Inr 0"
proof -
  have "\<exists>k. getSoftKey s = Inr k \<and> getKey s = Inr (unsigned_of unsigned_SoftKey k)"
    using assms(1) by (simp add: getKey_def getSoftKey_def)
  moreover have "\<exists>k. getARM8_3Key h = Inr k \<and> getKey h = Inr (unsigned_of unsigned_ARM8_3Key k)"
    using assms(2) by (simp add: getKey_def getARM8_3Key_def)
  moreover have "getKey (PointerAuthSchema_Soft mem sk a d) = Inr (unsigned_SoftKey sk)"
    by (simp add: getKey_def getKind_Soft getSoftKey_Soft)
  moreover have hw: "getKey (PointerAuthSchema_ARM8_3 mem hk a d) = Inr (unsigned_ARM8_3Key hk)"
    for hk a d
    by (simp add: getKey_def getKind_ARM8_3 getARM8_3Key_ARM8_3)
  moreover have "hasOtherDiscrimination
      (PointerAuthSchema_ARM8_3 mem ARM8_3Key_ASIA False Discrimination_None) = Inr False"
    by (simp add: hasOtherDiscrimination_def getOtherDiscrimination_ARM8_3)
  ultimately show ?thesis
    by (simp add: hw)
qed

theorem getKey_numeric_identity_witness:
  "getKind (PointerAuthSchema_Soft \<lparr>Kind = 3, AddressDiscriminated = 1, Discrimination = 3, Key = 7\<rparr>
       SoftKey_CXXVTablePointers True Discrimination_Type) = Enumerator Kind_Soft
   \<and> getKind (PointerAuthSchema_ARM8_3 \<lparr>Kind = 3, AddressDiscriminated = 1, Discrimination = 3, Key = 7\<rparr>
       ARM8_3Key_ASDB False Discrimination_None) = Enumerator Kind_ARM8_3
   \<and> getKey (PointerAuthSchema_Soft \<lparr>Kind = 3, AddressDiscriminated = 1, Discrimination = 3, Key = 7\<rparr>
       SoftKey_CXXVTablePointers True Discrimination_Type) = Inr 4
   \<and> getKey (PointerAuthSchema_ARM8_3 \<lparr>Kind = 3, AddressDiscriminated = 1, Discrimination = 3, Key = 7\<rparr>
       ARM8_3Key_ASDB False Discrimination_None) = Inr 3"
proof -
  let ?m = "\<lparr>Kind = 3, AddressDiscriminated = 1, Discrimination = 3, Key = 7\<rparr>"
  let ?s = "PointerAuthSchema_Soft ?m SoftKey_CXXVTablePointers True Discrimination_Type"
  let ?h = "PointerAuthSchema_ARM8_3 ?m ARM8_3Key_ASDB False Discrimination_None"
  have s: "getKind ?s = Enumerator Kind_Soft"
    by (simp add: getKind_def PointerAuthSchema_Soft_def Kind_of_def)
  have h: "getKind ?h = Enumerator Kind_ARM8_3"
    by (simp add: getKind_def PointerAuthSchema_ARM8_3_def ARM8_3_Key_update_def Kind_of_def)
  from s h getKey_numeric_identity [OF s h]
  show ?thesis by (simp add: getSoftKey_Soft getARM8_3Key_ARM8_3)
qed

text \<open>
  C7. Assigning one member. After an enabled schema \<open>s\<close> is assigned to the member
  \<^verbatim>\<open>CXXVTablePointers\<close> of a default-constructed \<^verbatim>\<open>PointerAuthOptions\<close>, that member
  is \<open>s\<close>, the other nine schemas still have the kind \<^verbatim>\<open>None\<close> and the four flags
  are still \<^verbatim>\<open>false\<close>.
\<close>

theorem slot_assignment_frame:
  assumes "isEnabled s"
  shows "CXXVTablePointers ((PointerAuthOptions_default omem)\<lparr>CXXVTablePointers := s\<rparr>) = s
   \<and> getKind (FunctionPointers ((PointerAuthOptions_default omem)\<lparr>CXXVTablePointers := s\<rparr>))
       = Enumerator Kind_None
   \<and> getKind (BlockInvocationFunctionPointers ((PointerAuthOptions_default omem)\<lparr>CXXVTablePointers := s\<rparr>))
       = Enumerator Kind_None
   \<and> getKind (BlockHelperFunctionPointers ((PointerAuthOptions_default omem)\<lparr>CXXVTablePointers := s\<rparr>))
       = Enumerator Kind_None
   \<and> getKind (BlockByrefHelperFunctionPointers ((PointerAuthOptions_default omem)\<lparr>CXXVTablePointers := s\<rparr>))
       = Enumerator Kind_None
   \<and> getKind (ObjCMethodListFunctionPointers ((PointerAuthOptions_default omem)\<lparr>CXXVTablePointers := s\<rparr>))
       = Enumerator Kind_None
   \<and> getKind (CXXVTTVTablePointers ((PointerAuthOptions_default omem)\<lparr>CXXVTablePointers := s\<rparr>))
       = Enumerator Kind_None
   \<and> getKind (CXXVirtualFunctionPointers ((PointerAuthOptions_default omem)\<lparr>CXXVTablePointers := s\<rparr>))
       = Enumerator Kind_None
   \<and> getKind (CXXVirtualVariadicFunctionPointers ((PointerAuthOptions_default omem)\<lparr>CXXVTablePointers := s\<rparr>))
       = Enumerator Kind_None
   \<and> getKind (CXXMemberFunctionPointers ((PointerAuthOptions_default omem)\<lparr>CXXVTablePointers := s\<rparr>))
       = Enumerator Kind_None
   \<and> ThunkCXXVirtualMemberPointers ((PointerAuthOptions_default omem)\<lparr>CXXVTablePointers := s\<rparr>) = False
   \<and> ReturnAddresses ((PointerAuthOptions_default omem)\<lparr>CXXVTablePointers := s\<rparr>) = False
   \<and> IndirectGotos ((PointerAuthOptions_default omem)\<lparr>CXXVTablePointers := s\<rparr>) = False
   \<and> AuthTraps ((PointerAuthOptions_default omem)\<lparr>CXXVTablePointers := s\<rparr>) = False"
  by (simp add: getKind_default PointerAuthOptions_default_def)

theorem slot_assignment_frame_witness:
  "(let m = \<lparr>Kind = 3, AddressDiscriminated = 1, Discrimination = 3, Key = 7\<rparr>;
        s = PointerAuthSchema_Soft m SoftKey_CXXVTablePointers True Discrimination_Type;
        opts = (PointerAuthOptions_default
          \<lparr>ThunkCXXVirtualMemberPointers = True, ReturnAddresses = True, IndirectGotos = True,
           AuthTraps = True, FunctionPointers = m, BlockInvocationFunctionPointers = m,
           BlockHelperFunctionPointers = m, BlockByrefHelperFunctionPointers = m,
           ObjCMethodListFunctionPointers = m, CXXVTablePointers = m, CXXVTTVTablePointers = m,
           CXXVirtualFunctionPointers = m, CXXVirtualVariadicFunctionPointers = m,
           CXXMemberFunctionPointers = m\<rparr>)\<lparr>CXXVTablePointers := s\<rparr>
    in isEnabled s
     \<and> isEnabled (CXXVTablePointers opts)
     \<and> getSoftKey (CXXVTablePointers opts) = Inr (Enumerator SoftKey_CXXVTablePointers)
     \<and> getKind (FunctionPointers opts) = Enumerator Kind_None
     \<and> getKind (CXXVTTVTablePointers opts) = Enumerator Kind_None
     \<and> getKind (CXXMemberFunctionPointers opts) = Enumerator Kind_None
     \<and> ThunkCXXVirtualMemberPointers opts = False
     \<and> AuthTraps opts = False)"
proof -
  let ?m = "\<lparr>Kind = 3, AddressDiscriminated = 1, Discrimination = 3, Key = 7\<rparr>"
  let ?s = "PointerAuthSchema_Soft ?m SoftKey_CXXVTablePointers True Discrimination_Type"
  let ?o = "\<lparr>ThunkCXXVirtualMemberPointers = True, ReturnAddresses = True, IndirectGotos = True,
           AuthTraps = True, FunctionPointers = ?m, BlockInvocationFunctionPointers = ?m,
           BlockHelperFunctionPointers = ?m, BlockByrefHelperFunctionPointers = ?m,
           ObjCMethodListFunctionPointers = ?m, CXXVTablePointers = ?m, CXXVTTVTablePointers = ?m,
           CXXVirtualFunctionPointers = ?m, CXXVirtualVariadicFunctionPointers = ?m,
           CXXMemberFunctionPointers = ?m\<rparr>"
  have s: "isEnabled ?s"
    by (simp add: isEnabled_def getKind_def PointerAuthSchema_Soft_def Kind_of_def)
  have k: "getSoftKey ?s = Inr (Enumerator SoftKey_CXXVTablePointers)"
    by (simp add: getSoftKey_def getKind_def PointerAuthSchema_Soft_def Kind_of_def SoftKey_of_def)
  from s k slot_assignment_frame [OF s, of ?o] show ?thesis
    unfolding Let_def by simp
qed

text \<open>
  C8. The two key vocabularies. \<^verbatim>\<open>SoftKey\<close> has exactly seven enumerators, numbered
  0 to 6 from \<^verbatim>\<open>FunctionPointers\<close> to \<^verbatim>\<open>CXXMemberFunctionPointers\<close>;
  \<^verbatim>\<open>ARM8_3Key\<close> has exactly four, \<^verbatim>\<open>ASIA\<close> = 0, \<^verbatim>\<open>ASIB\<close> = 1, \<^verbatim>\<open>ASDA\<close> = 2 and
  \<^verbatim>\<open>ASDB\<close> = 3.
\<close>

theorem key_vocabularies:
  "(UNIV :: SoftKey set) =
      {SoftKey_FunctionPointers, SoftKey_BlockInvocationFunctionPointers,
       SoftKey_BlockHelperFunctionPointers, SoftKey_ObjCMethodListFunctionPointers,
       SoftKey_CXXVTablePointers, SoftKey_CXXVirtualFunctionPointers,
       SoftKey_CXXMemberFunctionPointers}
   \<and> card (UNIV :: SoftKey set) = 7
   \<and> map unsigned_SoftKey
        [SoftKey_FunctionPointers, SoftKey_BlockInvocationFunctionPointers,
         SoftKey_BlockHelperFunctionPointers, SoftKey_ObjCMethodListFunctionPointers,
         SoftKey_CXXVTablePointers, SoftKey_CXXVirtualFunctionPointers,
         SoftKey_CXXMemberFunctionPointers] = [0, 1, 2, 3, 4, 5, 6]
   \<and> (UNIV :: ARM8_3Key set) = {ARM8_3Key_ASIA, ARM8_3Key_ASIB, ARM8_3Key_ASDA, ARM8_3Key_ASDB}
   \<and> card (UNIV :: ARM8_3Key set) = 4
   \<and> map unsigned_ARM8_3Key [ARM8_3Key_ASIA, ARM8_3Key_ASIB, ARM8_3Key_ASDA, ARM8_3Key_ASDB]
        = [0, 1, 2, 3]"
proof -
  have soft: "(UNIV :: SoftKey set) =
      {SoftKey_FunctionPointers, SoftKey_BlockInvocationFunctionPointers,
       SoftKey_BlockHelperFunctionPointers, SoftKey_ObjCMethodListFunctionPointers,
       SoftKey_CXXVTablePointers, SoftKey_CXXVirtualFunctionPointers,
       SoftKey_CXXMemberFunctionPointers}"
    using SoftKey.exhaust by auto
  have hard: "(UNIV :: ARM8_3Key set) =
      {ARM8_3Key_ASIA, ARM8_3Key_ASIB, ARM8_3Key_ASDA, ARM8_3Key_ASDB}"
    using ARM8_3Key.exhaust by auto
  have "card (UNIV :: SoftKey set) = 7"
    unfolding soft by simp
  moreover have "card (UNIV :: ARM8_3Key set) = 4"
    unfolding hard by simp
  ultimately show ?thesis
    using soft hard by simp
qed

text \<open>
  C9. The conversion to \<^verbatim>\<open>bool\<close>. On every schema \<^verbatim>\<open>operator bool\<close> gives what
  \<^verbatim>\<open>isEnabled\<close> gives, which is whether the kind differs from \<^verbatim>\<open>None\<close>. Neither
  function has an assertion on its path, so both are total functions into \<open>bool\<close> with
  no fault to return; on a default-constructed schema the conversion gives \<^verbatim>\<open>false\<close>.
\<close>

theorem operator_bool_is_isEnabled:
  "operator_bool s = isEnabled s
   \<and> isEnabled s = (getKind s \<noteq> Enumerator Kind_None)
   \<and> operator_bool (PointerAuthSchema_default mem) = False"
  by (simp add: operator_bool_def isEnabled_def getKind_default)

text \<open>
  C10. The last statement of \<^verbatim>\<open>getKey\<close>. On a schema whose kind is one of the three
  enumerators, \<^verbatim>\<open>getKey\<close> never reaches \<^verbatim>\<open>llvm_unreachable("bad key kind")\<close>: for
  \<^verbatim>\<open>None\<close> it faults in the first case of the \<^verbatim>\<open>switch\<close>, for \<^verbatim>\<open>Soft\<close> and
  \<^verbatim>\<open>ARM8_3\<close> it returns the number of the stored key. (The lemma
  \<open>getKey_bad_key_kind\<close> shows that the statement is reached when the two kind bits
  hold 3, which no constructor writes.)
\<close>

theorem getKey_trailing_unreachable:
  assumes "getKind s = Enumerator k"
  shows "getKey s \<noteq> Inl (Unreachable ''bad key kind'')
    \<and> (getKey s = Inl (Unreachable ''calling getKey() on disabled schema'') \<and> k = Kind_None
       \<or> getKey s = Inr (unsigned_of unsigned_SoftKey (SoftKey_of (unat (Key s)))) \<and> k = Kind_Soft
       \<or> getKey s = Inr (unsigned_of unsigned_ARM8_3Key (ARM8_3Key_of (unat (ARM8_3_Key s))))
          \<and> k = Kind_ARM8_3)"
  using assms by (cases k) (simp_all add: getKey_def getSoftKey_def getARM8_3Key_def)

theorem getKey_trailing_unreachable_witness:
  "getKind (PointerAuthSchema_default \<lparr>Kind = 3, AddressDiscriminated = 1, Discrimination = 3, Key = 7\<rparr>)
      = Enumerator Kind_None
   \<and> getKey (PointerAuthSchema_default \<lparr>Kind = 3, AddressDiscriminated = 1, Discrimination = 3, Key = 7\<rparr>)
      \<noteq> Inl (Unreachable ''bad key kind'')
   \<and> getKind (PointerAuthSchema_Soft \<lparr>Kind = 3, AddressDiscriminated = 1, Discrimination = 3, Key = 7\<rparr>
        SoftKey_CXXMemberFunctionPointers False Discrimination_Decl) = Enumerator Kind_Soft
   \<and> getKey (PointerAuthSchema_Soft \<lparr>Kind = 3, AddressDiscriminated = 1, Discrimination = 3, Key = 7\<rparr>
        SoftKey_CXXMemberFunctionPointers False Discrimination_Decl) = Inr 6
   \<and> getKind (PointerAuthSchema_ARM8_3 \<lparr>Kind = 3, AddressDiscriminated = 1, Discrimination = 3, Key = 7\<rparr>
        ARM8_3Key_ASIB True Discrimination_Type) = Enumerator Kind_ARM8_3
   \<and> getKey (PointerAuthSchema_ARM8_3 \<lparr>Kind = 3, AddressDiscriminated = 1, Discrimination = 3, Key = 7\<rparr>
        ARM8_3Key_ASIB True Discrimination_Type) = Inr 1"
proof -
  let ?m = "\<lparr>Kind = 3, AddressDiscriminated = 1, Discrimination = 3, Key = 7\<rparr>"
  let ?n = "PointerAuthSchema_default ?m"
  let ?s = "PointerAuthSchema_Soft ?m SoftKey_CXXMemberFunctionPointers False Discrimination_Decl"
  let ?h = "PointerAuthSchema_ARM8_3 ?m ARM8_3Key_ASIB True Discrimination_Type"
  have n: "getKind ?n = Enumerator Kind_None"
    by (simp add: getKind_def PointerAuthSchema_default_def Kind_of_def)
  have s: "getKind ?s = Enumerator Kind_Soft"
    by (simp add: getKind_def PointerAuthSchema_Soft_def Kind_of_def)
  have h: "getKind ?h = Enumerator Kind_ARM8_3"
    by (simp add: getKind_def PointerAuthSchema_ARM8_3_def ARM8_3_Key_update_def Kind_of_def)
  have ks: "SoftKey_of (unat (Key ?s)) = Enumerator SoftKey_CXXMemberFunctionPointers"
    by (simp add: PointerAuthSchema_Soft_def SoftKey_of_def)
  have kh: "ARM8_3Key_of (unat (ARM8_3_Key ?h)) = Enumerator ARM8_3Key_ASIB"
    by (simp add: PointerAuthSchema_ARM8_3_def ARM8_3_Key_update_get ARM8_3Key_of_def)
  from getKey_trailing_unreachable [OF n] getKey_trailing_unreachable [OF s]
    getKey_trailing_unreachable [OF h] n s h
  show ?thesis
    by (simp add: ks kh)
qed

end
